theory Spec2Isabelle
  imports Complex_Main
begin

section \<open>Data model of \<open>hospital/models.py\<close>\<close>

text \<open>
  The records below carry the columns that the three \<open>save\<close> methods, the name
  properties, \<open>Appointment.__str__\<close> and the admin's \<open>calculate_total\<close> read or write.
  Every other column of the Django models (profile picture, department, status, blood
  group, timestamps of \<open>BaseModel\<close>, ...) is untouched by that code and lives in the
  extension slot that every Isabelle record has.

  A foreign key declared \<open>null=True\<close> is an \<open>option\<close>; reading the attribute yields the
  referenced instance, which is embedded by value (the state of the referenced row at the
  moment of the save). A Django model instance defines neither \<open>__bool__\<close> nor
  \<open>__len__\<close>, so \<open>if self.patient:\<close> is the test \<open>patient \<noteq> None\<close>.
\<close>

text \<open>\<open>django.contrib.auth.models.User\<close>: the identity record (numeric id, first and last name).\<close>

record User =
  uid :: int
  first_name :: string
  last_name :: string

record Doctor =
  user :: User
  address :: string
  mobile :: string

record Patient =
  user :: User
  address :: string
  mobile :: string
  symptoms :: string
  assigned_doctor :: "Doctor option"
  assignedDoctorId :: "int option"

text \<open>
  \<open>datetime.date\<close> and \<open>datetime.datetime\<close>. \<open>datetime.date()\<close> returns the date with
  the same year, month and day.
\<close>

record date =
  year :: int
  month :: int
  day :: int

record datetime =
  year :: int
  month :: int
  day :: int
  hour :: int
  minute :: int
  second :: int
  microsecond :: int

definition date_of :: "datetime \<Rightarrow> date" where
  "date_of t = \<lparr>date.year = datetime.year t, date.month = datetime.month t,
                date.day = datetime.day t\<rparr>"

text \<open>
  \<open>bool(t)\<close> for a \<open>datetime\<close> \<open>t\<close>: the class defines neither \<open>__bool__\<close> nor \<open>__len__\<close>,
  so every \<open>datetime\<close> is truthy.
\<close>

definition datetime_truthy :: "datetime \<Rightarrow> bool" where
  "datetime_truthy t = True"

text \<open>
  A \<open>DecimalField\<close> holds a finite \<open>decimal.Decimal\<close>; it is modelled by the rational
  number it denotes (\<open>100.75\<close> is \<open>403 / 4\<close>).
\<close>

type_synonym decimal = rat

text \<open>
  \<open>Appointment\<close>. \<open>appointment_date\<close> is declared without \<open>null=True\<close> and with the default
  \<open>timezone.now\<close>, so, like the canonical columns of \<open>PatientDischargeDetails\<close> below, it
  always holds a value; the two foreign keys are declared \<open>null=True\<close>.
\<close>

record Appointment =
  patient :: "Patient option"
  doctor :: "Doctor option"
  appointment_date :: datetime
  description :: string
  patientId :: "int option"
  doctorId :: "int option"
  patientName :: string
  doctorName :: string
  appointmentDate :: "date option"

text \<open>
  \<open>PatientDischargeDetails\<close>. \<open>pk\<close> is \<open>None\<close> until the row has been inserted. The
  canonical dates, the day count and the five currency columns are declared without
  \<open>null=True\<close>; the thirteen legacy columns follow. The column \<open>total\<close> is named
  \<open>total_bill\<close> here.
\<close>

record PatientDischargeDetails =
  pk :: "int option"
  patient :: "Patient option"
  assigned_doctor :: "Doctor option"
  admit_date :: date
  release_date :: date
  day_spent :: int
  room_charge :: decimal
  medicine_cost :: decimal
  doctor_fee :: decimal
  other_charge :: decimal
  total_bill :: decimal
  patientId :: "int option"
  patientName :: string
  assignedDoctorName :: string
  address :: string
  mobile :: string
  symptoms :: string
  admitDate :: "date option"
  releaseDate :: "date option"
  daySpent :: "int option"
  roomCharge :: "int option"
  medicineCost :: "int option"
  doctorFee :: "int option"
  OtherCharge :: "int option"

text \<open>The declared \<open>max_length\<close> of the legacy column \<open>PatientDischargeDetails.symptoms\<close>.\<close>

definition symptoms_max_length :: nat where
  "symptoms_max_length = 500"

section \<open>Name properties\<close>

text \<open>\<open>Doctor.get_name\<close> and \<open>Patient.get_name\<close>: the f-string \<open>"{first_name} {last_name}"\<close>.\<close>

definition Doctor_get_name :: "Doctor \<Rightarrow> string" where
  "Doctor_get_name d = first_name (Doctor.user d) @ '' '' @ last_name (Doctor.user d)"

definition Patient_get_name :: "Patient \<Rightarrow> string" where
  "Patient_get_name p = first_name (Patient.user p) @ '' '' @ last_name (Patient.user p)"

section \<open>The legacy field synchronizer: the three \<open>save\<close> methods\<close>

text \<open>
  Each \<open>save\<close> assigns the legacy attributes of \<open>self\<close> and then hands \<open>self\<close> to
  \<open>super().save\<close>, the persistence layer, which is outside the repository. The
  embedding is the instance as it is handed over, that is, the row that gets written.
  The method bodies contain no \<open>raise\<close> and dereference a reference only under its own
  presence test, so the embedding has no failure branch.
\<close>

definition Patient_save :: "Patient \<Rightarrow> Patient" where
  "Patient_save self =
     (case Patient.assigned_doctor self of
        Some d \<Rightarrow> self\<lparr>Patient.assignedDoctorId := Some (uid (Doctor.user d))\<rparr>
      | None \<Rightarrow> self)"

definition Appointment_sync_patient :: "Appointment \<Rightarrow> Appointment" where
  "Appointment_sync_patient self =
     (case Appointment.patient self of
        Some p \<Rightarrow> self\<lparr>Appointment.patientId := Some (uid (Patient.user p)),
                       Appointment.patientName := Patient_get_name p\<rparr>
      | None \<Rightarrow> self)"

definition Appointment_sync_doctor :: "Appointment \<Rightarrow> Appointment" where
  "Appointment_sync_doctor self =
     (case Appointment.doctor self of
        Some d \<Rightarrow> self\<lparr>Appointment.doctorId := Some (uid (Doctor.user d)),
                       Appointment.doctorName := Doctor_get_name d\<rparr>
      | None \<Rightarrow> self)"

text \<open>The third block: \<open>if self.appointment_date:\<close> is the truthiness of a \<open>datetime\<close>.\<close>

definition Appointment_sync_date :: "Appointment \<Rightarrow> Appointment" where
  "Appointment_sync_date self =
     (if datetime_truthy (Appointment.appointment_date self)
      then self\<lparr>Appointment.appointmentDate :=
                  Some (date_of (Appointment.appointment_date self))\<rparr>
      else self)"

text \<open>\<open>Appointment.save\<close>: the three guarded blocks, in the order of the source.\<close>

definition Appointment_save :: "Appointment \<Rightarrow> Appointment" where
  "Appointment_save self =
     Appointment_sync_date (Appointment_sync_doctor (Appointment_sync_patient self))"

text \<open>
  \<open>int(d)\<close> for a \<open>Decimal\<close> \<open>d\<close>: Python takes the integral digits of the magnitude and
  applies the sign.
\<close>

definition int_decimal :: "decimal \<Rightarrow> int" where
  "int_decimal x = (if x < 0 then - \<lfloor>- x\<rfloor> else \<lfloor>x\<rfloor>)"

text \<open>
  Truncation toward zero, in the words of the specification: \<open>n\<close> is the integer part of
  \<open>x\<close>, that is, no larger than \<open>x\<close> in magnitude, less than one away from it, and of the
  same sign.
\<close>

definition truncates_toward_zero :: "decimal \<Rightarrow> int \<Rightarrow> bool" where
  "truncates_toward_zero x n =
     (\<bar>of_int n\<bar> \<le> \<bar>x\<bar> \<and> \<bar>x\<bar> < \<bar>of_int n\<bar> + 1 \<and> 0 \<le> of_int n * x)"

definition PatientDischargeDetails_sync_patient ::
    "PatientDischargeDetails \<Rightarrow> PatientDischargeDetails" where
  "PatientDischargeDetails_sync_patient self =
     (case PatientDischargeDetails.patient self of
        Some p \<Rightarrow> self\<lparr>PatientDischargeDetails.patientId := Some (uid (Patient.user p)),
                       PatientDischargeDetails.patientName := Patient_get_name p,
                       PatientDischargeDetails.address := Patient.address p,
                       PatientDischargeDetails.mobile := Patient.mobile p,
                       PatientDischargeDetails.symptoms := Patient.symptoms p\<rparr>
      | None \<Rightarrow> self)"

definition PatientDischargeDetails_sync_doctor ::
    "PatientDischargeDetails \<Rightarrow> PatientDischargeDetails" where
  "PatientDischargeDetails_sync_doctor self =
     (case PatientDischargeDetails.assigned_doctor self of
        Some d \<Rightarrow> self\<lparr>assignedDoctorName := Doctor_get_name d\<rparr>
      | None \<Rightarrow> self)"

definition PatientDischargeDetails_sync_fields ::
    "PatientDischargeDetails \<Rightarrow> PatientDischargeDetails" where
  "PatientDischargeDetails_sync_fields self =
     self\<lparr>admitDate := Some (admit_date self),
          releaseDate := Some (release_date self),
          daySpent := Some (day_spent self),
          roomCharge := Some (int_decimal (room_charge self)),
          medicineCost := Some (int_decimal (medicine_cost self)),
          doctorFee := Some (int_decimal (doctor_fee self)),
          OtherCharge := Some (int_decimal (other_charge self))\<rparr>"

text \<open>
  \<open>PatientDischargeDetails.save\<close>: the two guarded blocks, then the seven unguarded
  assignments.
\<close>

definition PatientDischargeDetails_save ::
    "PatientDischargeDetails \<Rightarrow> PatientDischargeDetails" where
  "PatientDischargeDetails_save self =
     PatientDischargeDetails_sync_fields
       (PatientDischargeDetails_sync_doctor (PatientDischargeDetails_sync_patient self))"

section \<open>\<open>Appointment.__str__\<close>\<close>

text \<open>
  Reading \<open>.get_name\<close> of \<open>None\<close> raises \<open>AttributeError\<close>. The f-string evaluates
  \<open>self.patient.get_name\<close> first, then \<open>self.doctor.get_name\<close>. The rendering of the
  timestamp is the runtime's \<open>str\<close>; it is the parameter \<open>str_datetime\<close>.
\<close>

datatype error = AttributeError

definition Appointment_str ::
    "(datetime \<Rightarrow> string) \<Rightarrow> Appointment \<Rightarrow> error + string" where
  "Appointment_str str_datetime self =
     (case Appointment.patient self of
        None \<Rightarrow> Inl AttributeError
      | Some p \<Rightarrow>
          (case Appointment.doctor self of
             None \<Rightarrow> Inl AttributeError
           | Some d \<Rightarrow>
               Inr (Patient_get_name p @ '' -> '' @ Doctor_get_name d @ '' on '' @
                    str_datetime (Appointment.appointment_date self))))"

section \<open>Binary floating point, as \<open>calculate_total\<close> uses it\<close>

text \<open>
  A finite IEEE 754 binary64 value is a rational number, and is modelled by it.
  \<open>round_binary64\<close> rounds a rational to the nearest value with a 53-bit significand, ties
  to even: the rounding of \<open>float(d)\<close> for a \<open>Decimal\<close> and of \<open>+\<close> on floats.

  The exponent range of binary64 is not modelled (no overflow to infinity, no subnormal
  numbers, no NaN): \<open>round_binary64\<close> is \<open>float\<close>'s rounding only for magnitudes inside the
  normal range, from \<open>2 ^ -1022\<close> up to the largest finite value, and nothing below is
  stated about \<open>float\<close> outside it. The checker applies it to the columns declared
  \<open>DecimalField(max_digits=10, decimal_places=2)\<close>, whose non-zero values lie between
  \<open>2 ^ -7\<close> and \<open>2 ^ 27\<close> (lemma \<open>money_normal_range\<close>).
\<close>

text \<open>The number of binary digits of a positive integer (Python's \<open>int.bit_length\<close>).\<close>

function bit_length :: "int \<Rightarrow> int" where
  "bit_length n = (if n \<le> 0 then 0 else 1 + bit_length (n div 2))"
  by pat_completeness auto
termination
  by (relation "measure nat") auto

definition pow2 :: "int \<Rightarrow> rat" where
  "pow2 k = (if 0 \<le> k then 2 ^ nat k else 1 / 2 ^ nat (- k))"

definition log2_adjust :: "rat \<Rightarrow> int \<Rightarrow> int" where
  "log2_adjust a k = (if pow2 k \<le> a then k else k - 1)"

text \<open>
  For \<open>x \<noteq> 0\<close>, the exponent \<open>e\<close> with \<open>2 ^ e \<le> \<bar>x\<bar> < 2 ^ (e + 1)\<close>: the difference of the
  bit lengths of numerator and denominator, or one less.
\<close>

definition floor_log2 :: "rat \<Rightarrow> int" where
  "floor_log2 x =
     log2_adjust \<bar>x\<bar>
       (bit_length (fst (quotient_of \<bar>x\<bar>)) - bit_length (snd (quotient_of \<bar>x\<bar>)))"

definition pick_half_even :: "int \<Rightarrow> rat \<Rightarrow> int" where
  "pick_half_even f d =
     (if d < 1 / 2 then f
      else if 1 / 2 < d then f + 1
      else if f mod 2 = 0 then f else f + 1)"

definition round_half_even :: "rat \<Rightarrow> int" where
  "round_half_even r = pick_half_even \<lfloor>r\<rfloor> (r - of_int \<lfloor>r\<rfloor>)"

definition scale_round :: "rat \<Rightarrow> int \<Rightarrow> rat" where
  "scale_round x q = sgn x * of_int (round_half_even (\<bar>x\<bar> / pow2 q)) * pow2 q"

definition round_binary64 :: "rat \<Rightarrow> rat" where
  "round_binary64 x = (if x = 0 then 0 else scale_round x (floor_log2 x - 52))"

text \<open>\<open>float(d)\<close> for a \<open>Decimal\<close> \<open>d\<close>, and \<open>a + b\<close> on floats.\<close>

definition float_decimal :: "decimal \<Rightarrow> rat" where
  "float_decimal d = round_binary64 d"

definition float_add :: "rat \<Rightarrow> rat \<Rightarrow> rat" where
  "float_add a b = round_binary64 (a + b)"

section \<open>The billing total checker: \<open>PatientDischargeDetailsAdmin.calculate_total\<close>\<close>

text \<open>
  The method returns one of three renderings: the string \<open>'-'\<close>, the green
  \<open>Correct\<close> template filled with \<open>calculated\<close>, or the red \<open>Mismatch\<close> template filled
  with \<open>obj.total\<close> and \<open>calculated\<close>. The embedding keeps which rendering is chosen and
  the values it is filled with. The method assigns nothing, so the embedding is a
  function of \<open>obj\<close> alone.
\<close>

datatype verification = NotEvaluable | Correct rat | Mismatch decimal rat

text \<open>\<open>if obj.pk:\<close> is Python truthiness: \<open>None\<close> and \<open>0\<close> are false.\<close>

definition pk_truthy :: "int option \<Rightarrow> bool" where
  "pk_truthy k = (case k of None \<Rightarrow> False | Some n \<Rightarrow> n \<noteq> 0)"

text \<open>The local variable \<open>calculated\<close>: the four conversions, added left to right.\<close>

definition calculated :: "PatientDischargeDetails \<Rightarrow> rat" where
  "calculated obj =
     float_add
       (float_add
          (float_add (float_decimal (room_charge obj)) (float_decimal (medicine_cost obj)))
          (float_decimal (doctor_fee obj)))
       (float_decimal (other_charge obj))"

definition calculate_total :: "PatientDischargeDetails \<Rightarrow> verification" where
  "calculate_total obj =
     (if pk_truthy (pk obj) then
        (if calculated obj = float_decimal (total_bill obj) then Correct (calculated obj)
         else Mismatch (total_bill obj) (calculated obj))
      else NotEvaluable)"

text \<open>
  The expected sum in the words of the specification:
  \<open>expected = room_charge + medicine_cost + doctor_fee + other_charge\<close> in exact decimal
  arithmetic. It is the yardstick of the claims about the checker, not part of the code.
\<close>

definition expected_sum :: "PatientDischargeDetails \<Rightarrow> decimal" where
  "expected_sum obj = room_charge obj + medicine_cost obj + doctor_fee obj + other_charge obj"

text \<open>
  The values a \<open>DecimalField(max_digits=10, decimal_places=2)\<close> column can hold: two decimal
  places and at most eight integral digits.
\<close>

definition money :: "decimal \<Rightarrow> bool" where
  "money x = (\<bar>x\<bar> < 10 ^ 8 \<and> of_int \<lfloor>100 * x\<rfloor> = 100 * x)"

section \<open>Concrete records\<close>

text \<open>
  The scenario of the specification and of \<open>verify_fixes.py\<close>: a doctor whose user has
  id 7 and name \<open>A B\<close>, a patient assigned to that doctor, an appointment and a discharge
  record referencing both, with charges 100.00, 50.00, 200.00, 10.00 and total 360.00.
\<close>

definition example_doctor :: Doctor where
  "example_doctor =
     \<lparr>Doctor.user = \<lparr>uid = 7, first_name = ''A'', last_name = ''B''\<rparr>,
      Doctor.address = ''123 Doc St'', Doctor.mobile = ''1234567890''\<rparr>"

definition example_patient :: Patient where
  "example_patient =
     \<lparr>Patient.user = \<lparr>uid = 8, first_name = ''C'', last_name = ''D''\<rparr>,
      Patient.address = ''456 Pat St'', Patient.mobile = ''0987654321'',
      Patient.symptoms = ''Fever'', Patient.assigned_doctor = Some example_doctor,
      Patient.assignedDoctorId = None\<rparr>"

definition example_appointment :: Appointment where
  "example_appointment =
     \<lparr>Appointment.patient = Some example_patient, Appointment.doctor = Some example_doctor,
      Appointment.appointment_date =
        \<lparr>datetime.year = 2024, datetime.month = 5, datetime.day = 17, hour = 9,
         minute = 30, second = 0, microsecond = 0\<rparr>,
      Appointment.description = ''Checkup'', Appointment.patientId = None,
      Appointment.doctorId = None, Appointment.patientName = [],
      Appointment.doctorName = [], Appointment.appointmentDate = None\<rparr>"

definition example_discharge :: PatientDischargeDetails where
  "example_discharge =
     \<lparr>pk = Some 1, PatientDischargeDetails.patient = Some example_patient,
      PatientDischargeDetails.assigned_doctor = Some example_doctor,
      admit_date = \<lparr>date.year = 2024, date.month = 5, date.day = 17\<rparr>,
      release_date = \<lparr>date.year = 2024, date.month = 5, date.day = 18\<rparr>,
      day_spent = 1, room_charge = 100, medicine_cost = 50, doctor_fee = 200,
      other_charge = 10, total_bill = 360,
      PatientDischargeDetails.patientId = None, PatientDischargeDetails.patientName = [],
      assignedDoctorName = [], PatientDischargeDetails.address = [],
      PatientDischargeDetails.mobile = [], PatientDischargeDetails.symptoms = [],
      admitDate = None, releaseDate = None, daySpent = None, roomCharge = None,
      medicineCost = None, doctorFee = None, OtherCharge = None\<rparr>"

text \<open>
  The same rows once saved and then stripped of their references (the doctor deleted, or
  the reference cleared by hand): the legacy columns still hold the values of the
  earlier save. The appointment has since been moved from 17 May to 3 June.
\<close>

definition orphan_patient :: Patient where
  "orphan_patient =
     example_patient\<lparr>Patient.assigned_doctor := None, Patient.assignedDoctorId := Some 7\<rparr>"

definition orphan_appointment :: Appointment where
  "orphan_appointment =
     \<lparr>Appointment.patient = None, Appointment.doctor = None,
      Appointment.appointment_date =
        \<lparr>datetime.year = 2024, datetime.month = 6, datetime.day = 3, hour = 23,
         minute = 59, second = 59, microsecond = 999999\<rparr>,
      Appointment.description = ''Checkup'', Appointment.patientId = Some 8,
      Appointment.doctorId = Some 7, Appointment.patientName = ''C D'',
      Appointment.doctorName = ''A B'',
      Appointment.appointmentDate =
        Some \<lparr>date.year = 2024, date.month = 5, date.day = 17\<rparr>\<rparr>"

definition orphan_discharge :: PatientDischargeDetails where
  "orphan_discharge =
     example_discharge
       \<lparr>PatientDischargeDetails.patient := None,
        PatientDischargeDetails.assigned_doctor := None,
        PatientDischargeDetails.patientId := Some 8,
        PatientDischargeDetails.patientName := ''C D'',
        assignedDoctorName := ''A B'',
        PatientDischargeDetails.address := ''456 Pat St'',
        PatientDischargeDetails.mobile := ''0987654321'',
        PatientDischargeDetails.symptoms := ''Fever''\<rparr>"

text \<open>A discharge record with charges 100.75, 19.99, 200.50 and 0.50, total 321.74.\<close>

definition fractional_discharge :: PatientDischargeDetails where
  "fractional_discharge =
     example_discharge
       \<lparr>room_charge := 403 / 4, medicine_cost := 1999 / 100, doctor_fee := 401 / 2,
        other_charge := 1 / 2, total_bill := 16087 / 50\<rparr>"

text \<open>A patient whose symptoms text has 501 characters, and a discharge record for them.\<close>

definition verbose_patient :: Patient where
  "verbose_patient = example_patient\<lparr>Patient.symptoms := replicate 501 (CHR ''a'')\<rparr>"

definition verbose_discharge :: PatientDischargeDetails where
  "verbose_discharge =
     example_discharge\<lparr>PatientDischargeDetails.patient := Some verbose_patient\<rparr>"

text \<open>A persisted discharge record with charges 0.10, 0.20, 0.00, 0.00 and total 0.30.\<close>

definition dime_discharge :: PatientDischargeDetails where
  "dime_discharge =
     example_discharge
       \<lparr>room_charge := 1 / 10, medicine_cost := 2 / 10, doctor_fee := 0,
        other_charge := 0, total_bill := 3 / 10\<rparr>"

text \<open>A persisted discharge record with charges 1.10, 2.20, 0.00, 0.00 and total 3.30.\<close>

definition cents_discharge :: PatientDischargeDetails where
  "cents_discharge =
     example_discharge
       \<lparr>room_charge := 11 / 10, medicine_cost := 22 / 10, doctor_fee := 0,
        other_charge := 0, total_bill := 33 / 10\<rparr>"

text \<open>The second scenario of the specification: the same charges with a stated total of 350.00.\<close>

definition short_discharge :: PatientDischargeDetails where
  "short_discharge = example_discharge\<lparr>total_bill := 350\<rparr>"

text \<open>A record that has not been inserted yet.\<close>

definition unsaved_discharge :: PatientDischargeDetails where
  "unsaved_discharge = example_discharge\<lparr>pk := None\<rparr>"

section \<open>Patient: the legacy doctor id\<close>

text \<open>
  C2. For every Patient whose \<open>assigned_doctor\<close> reference is non-null, after save the
  legacy field \<open>assignedDoctorId\<close> equals the id of the assigned doctor's user.
\<close>

theorem Patient_save_assignedDoctorId:
  assumes "Patient.assigned_doctor p = Some d"
  shows "Patient.assignedDoctorId (Patient_save p) = Some (uid (Doctor.user d))"
  using assms by (simp add: Patient_save_def)

theorem Patient_save_assignedDoctorId_witness:
  "Patient.assigned_doctor example_patient = Some example_doctor \<and>
   Patient.assignedDoctorId (Patient_save example_patient) = Some 7"
proof -
  have ref: "Patient.assigned_doctor example_patient = Some example_doctor"
    by (simp add: example_patient_def)
  from Patient_save_assignedDoctorId [OF ref] show ?thesis
    by (simp add: ref example_doctor_def)
qed

section \<open>Appointment: legacy ids, names and date\<close>

text \<open>
  C3. For every Appointment with both patient and doctor set, after save \<open>patientId\<close> and
  \<open>doctorId\<close> equal the ids of the referenced records' users, and \<open>patientName\<close> and
  \<open>doctorName\<close> equal the user's first name, one space, and the user's last name.
\<close>

theorem Appointment_save_ids_and_names:
  assumes "Appointment.patient a = Some p" and "Appointment.doctor a = Some d"
  shows "Appointment.patientId (Appointment_save a) = Some (uid (Patient.user p)) \<and>
         Appointment.doctorId (Appointment_save a) = Some (uid (Doctor.user d)) \<and>
         Appointment.patientName (Appointment_save a) =
           first_name (Patient.user p) @ '' '' @ last_name (Patient.user p) \<and>
         Appointment.doctorName (Appointment_save a) =
           first_name (Doctor.user d) @ '' '' @ last_name (Doctor.user d)"
  using assms
  by (simp add: Appointment_save_def Appointment_sync_patient_def
      Appointment_sync_doctor_def Appointment_sync_date_def datetime_truthy_def Patient_get_name_def
      Doctor_get_name_def split: option.split)

theorem Appointment_save_ids_and_names_witness:
  "Appointment.patientId (Appointment_save example_appointment) = Some 8 \<and>
   Appointment.doctorId (Appointment_save example_appointment) = Some 7 \<and>
   Appointment.patientName (Appointment_save example_appointment) = ''C D'' \<and>
   Appointment.doctorName (Appointment_save example_appointment) = ''A B''"
proof -
  have p: "Appointment.patient example_appointment = Some example_patient"
    and d: "Appointment.doctor example_appointment = Some example_doctor"
    by (simp_all add: example_appointment_def)
  from Appointment_save_ids_and_names [OF p d] show ?thesis
    by (simp add: example_patient_def example_doctor_def)
qed

text \<open>
  C5. For every Appointment, after save the legacy field \<open>appointmentDate\<close> is the date
  component (year, month and day) of the canonical \<open>appointment_date\<close> timestamp. The copy
  happens on every save, whatever the timestamp and whatever the references and the prior
  legacy date: the guard \<open>if self.appointment_date:\<close> holds for every \<open>datetime\<close>.
\<close>

theorem Appointment_save_appointmentDate:
  "Appointment.appointmentDate (Appointment_save a) =
     Some (date_of (Appointment.appointment_date a)) \<and>
   (\<exists>d. Appointment.appointmentDate (Appointment_save a) = Some d \<and>
        date.year d = datetime.year (Appointment.appointment_date a) \<and>
        date.month d = datetime.month (Appointment.appointment_date a) \<and>
        date.day d = datetime.day (Appointment.appointment_date a))"
  by (simp add: Appointment_save_def Appointment_sync_patient_def
      Appointment_sync_doctor_def Appointment_sync_date_def datetime_truthy_def date_of_def
      split: option.split)

text \<open>
  A first save fills the empty legacy date; a save after the timestamp was moved
  replaces the stale one, also when both references are null.
\<close>

theorem Appointment_save_appointmentDate_witness:
  "Appointment.appointmentDate example_appointment = None \<and>
   Appointment.appointmentDate (Appointment_save example_appointment) =
     Some \<lparr>date.year = 2024, date.month = 5, date.day = 17\<rparr> \<and>
   Appointment.appointmentDate orphan_appointment =
     Some \<lparr>date.year = 2024, date.month = 5, date.day = 17\<rparr> \<and>
   Appointment.appointmentDate (Appointment_save orphan_appointment) =
     Some \<lparr>date.year = 2024, date.month = 6, date.day = 3\<rparr>"
  using Appointment_save_appointmentDate [of example_appointment]
    Appointment_save_appointmentDate [of orphan_appointment]
  by (simp add: example_appointment_def orphan_appointment_def date_of_def)

section \<open>Null references\<close>

text \<open>
  C6. A Patient, Appointment or PatientDischargeDetails saved with a null reference is
  saved all the same (the \<open>save\<close> functions are total: the absent reference is skipped),
  and the legacy fields that mirror that reference keep their prior values.
\<close>

theorem null_reference_keeps_legacy_fields:
  "(Patient.assigned_doctor p = None \<longrightarrow>
      Patient.assignedDoctorId (Patient_save p) = Patient.assignedDoctorId p) \<and>
   (Appointment.patient a = None \<longrightarrow>
      Appointment.patientId (Appointment_save a) = Appointment.patientId a \<and>
      Appointment.patientName (Appointment_save a) = Appointment.patientName a) \<and>
   (Appointment.doctor a = None \<longrightarrow>
      Appointment.doctorId (Appointment_save a) = Appointment.doctorId a \<and>
      Appointment.doctorName (Appointment_save a) = Appointment.doctorName a) \<and>
   (PatientDischargeDetails.patient r = None \<longrightarrow>
      PatientDischargeDetails.patientId (PatientDischargeDetails_save r) =
        PatientDischargeDetails.patientId r \<and>
      PatientDischargeDetails.patientName (PatientDischargeDetails_save r) =
        PatientDischargeDetails.patientName r \<and>
      PatientDischargeDetails.address (PatientDischargeDetails_save r) =
        PatientDischargeDetails.address r \<and>
      PatientDischargeDetails.mobile (PatientDischargeDetails_save r) =
        PatientDischargeDetails.mobile r \<and>
      PatientDischargeDetails.symptoms (PatientDischargeDetails_save r) =
        PatientDischargeDetails.symptoms r) \<and>
   (PatientDischargeDetails.assigned_doctor r = None \<longrightarrow>
      assignedDoctorName (PatientDischargeDetails_save r) = assignedDoctorName r)"
  by (simp add: Patient_save_def Appointment_save_def Appointment_sync_patient_def
      Appointment_sync_doctor_def Appointment_sync_date_def datetime_truthy_def
      PatientDischargeDetails_save_def PatientDischargeDetails_sync_patient_def
      PatientDischargeDetails_sync_doctor_def PatientDischargeDetails_sync_fields_def
      split: option.split)

theorem null_reference_keeps_legacy_fields_witness:
  "Patient.assignedDoctorId (Patient_save orphan_patient) = Some 7 \<and>
   Appointment.patientId (Appointment_save orphan_appointment) = Some 8 \<and>
   Appointment.patientName (Appointment_save orphan_appointment) = ''C D'' \<and>
   Appointment.doctorId (Appointment_save orphan_appointment) = Some 7 \<and>
   Appointment.doctorName (Appointment_save orphan_appointment) = ''A B'' \<and>
   PatientDischargeDetails.patientId (PatientDischargeDetails_save orphan_discharge) =
     Some 8 \<and>
   PatientDischargeDetails.patientName (PatientDischargeDetails_save orphan_discharge) =
     ''C D'' \<and>
   PatientDischargeDetails.address (PatientDischargeDetails_save orphan_discharge) =
     ''456 Pat St'' \<and>
   PatientDischargeDetails.mobile (PatientDischargeDetails_save orphan_discharge) =
     ''0987654321'' \<and>
   PatientDischargeDetails.symptoms (PatientDischargeDetails_save orphan_discharge) =
     ''Fever'' \<and>
   assignedDoctorName (PatientDischargeDetails_save orphan_discharge) = ''A B''"
  using null_reference_keeps_legacy_fields
    [of orphan_patient orphan_appointment orphan_discharge]
  by (simp add: orphan_patient_def orphan_appointment_def orphan_discharge_def
      example_patient_def example_discharge_def)

section \<open>Idempotence\<close>

text \<open>
  C8. Saving a record a second time, with its canonical fields and the referenced records
  unchanged, yields the record of the first save: all legacy fields are the same.
\<close>

theorem save_idempotent:
  "Patient_save (Patient_save p) = Patient_save p \<and>
   Appointment_save (Appointment_save a) = Appointment_save a \<and>
   PatientDischargeDetails_save (PatientDischargeDetails_save r) =
     PatientDischargeDetails_save r"
  by (simp add: Patient_save_def Appointment_save_def Appointment_sync_patient_def
      Appointment_sync_doctor_def Appointment_sync_date_def datetime_truthy_def
      PatientDischargeDetails_save_def PatientDischargeDetails_sync_patient_def
      PatientDischargeDetails_sync_doctor_def PatientDischargeDetails_sync_fields_def
      split: option.split)

section \<open>The string representation of an Appointment\<close>

text \<open>
  C9. \<open>Appointment.__str__\<close> dereferences a null reference (raises \<open>AttributeError\<close>)
  exactly when the patient or the doctor reference is null; it yields a string exactly
  when both are present.
\<close>

theorem Appointment_str_defined_iff:
  "(Appointment_str f a = Inl AttributeError) =
     (Appointment.patient a = None \<or> Appointment.doctor a = None) \<and>
   (\<exists>s. Appointment_str f a = Inr s) =
     (Appointment.patient a \<noteq> None \<and> Appointment.doctor a \<noteq> None)"
  by (auto simp add: Appointment_str_def split: option.split)

section \<open>The legacy symptoms column\<close>

text \<open>
  C10. The discharge synchronizer copies the patient's symptoms text untruncated: for a
  patient whose symptoms are longer than the 500 characters declared for the legacy
  column, the synced legacy value is longer than that bound.
\<close>

theorem discharge_symptoms_exceed_max_length:
  assumes "PatientDischargeDetails.patient r = Some p"
    and "symptoms_max_length < length (Patient.symptoms p)"
  shows "PatientDischargeDetails.symptoms (PatientDischargeDetails_save r) =
           Patient.symptoms p \<and>
         symptoms_max_length <
           length (PatientDischargeDetails.symptoms (PatientDischargeDetails_save r))"
  using assms
  by (simp add: PatientDischargeDetails_save_def PatientDischargeDetails_sync_patient_def
      PatientDischargeDetails_sync_doctor_def PatientDischargeDetails_sync_fields_def
      split: option.split)

theorem discharge_symptoms_exceed_max_length_witness:
  "length (Patient.symptoms verbose_patient) = 501 \<and>
   length (PatientDischargeDetails.symptoms (PatientDischargeDetails_save verbose_discharge))
     = 501 \<and>
   symptoms_max_length <
     length (PatientDischargeDetails.symptoms (PatientDischargeDetails_save verbose_discharge))"
proof -
  have ref: "PatientDischargeDetails.patient verbose_discharge = Some verbose_patient"
    by (simp add: verbose_discharge_def)
  have len: "length (Patient.symptoms verbose_patient) = 501"
    by (simp add: verbose_patient_def)
  have long: "symptoms_max_length < length (Patient.symptoms verbose_patient)"
    by (simp add: len symptoms_max_length_def)
  from discharge_symptoms_exceed_max_length [OF ref long] len show ?thesis
    by (simp add: symptoms_max_length_def)
qed

section \<open>The legacy charge columns\<close>

lemma int_decimal_truncates: "truncates_toward_zero x (int_decimal x)"
proof (cases "x < 0")
  case True
  then have nonneg: "0 \<le> \<lfloor>- x\<rfloor>" by simp
  then have abs: "\<bar>rat_of_int (- \<lfloor>- x\<rfloor>)\<bar> = of_int \<lfloor>- x\<rfloor>" by simp
  have "of_int \<lfloor>- x\<rfloor> \<le> - x" and "- x < of_int \<lfloor>- x\<rfloor> + 1" by linarith+
  moreover have "rat_of_int \<lfloor>- x\<rfloor> * x \<le> 0"
  proof (rule mult_nonneg_nonpos)
    show "0 \<le> rat_of_int \<lfloor>- x\<rfloor>" using nonneg by simp
    show "x \<le> 0" using True by simp
  qed
  ultimately show ?thesis
    using True abs by (simp add: truncates_toward_zero_def int_decimal_def)
next
  case False
  then have nonneg: "0 \<le> \<lfloor>x\<rfloor>" by simp
  then have abs: "\<bar>rat_of_int \<lfloor>x\<rfloor>\<bar> = of_int \<lfloor>x\<rfloor>" by simp
  have "of_int \<lfloor>x\<rfloor> \<le> x" and "x < of_int \<lfloor>x\<rfloor> + 1" by linarith+
  moreover have "0 \<le> rat_of_int \<lfloor>x\<rfloor> * x"
    using False nonneg by simp
  ultimately show ?thesis
    using False abs by (simp add: truncates_toward_zero_def int_decimal_def)
qed

text \<open>The three conditions leave no other integer.\<close>

lemma truncates_toward_zero_unique:
  assumes "truncates_toward_zero x n"
  shows "n = int_decimal x"
proof -
  from assms have le: "\<bar>rat_of_int n\<bar> \<le> \<bar>x\<bar>" and lt: "\<bar>x\<bar> < \<bar>rat_of_int n\<bar> + 1"
    and sg: "0 \<le> rat_of_int n * x"
    by (simp_all add: truncates_toward_zero_def)
  show ?thesis
  proof (cases "x < 0")
    case True
    with sg have "rat_of_int n \<le> 0" by (simp add: zero_le_mult_iff)
    with le lt True have "rat_of_int (- n) \<le> - x" and "- x < rat_of_int (- n) + 1"
      by simp_all
    then have "\<lfloor>- x\<rfloor> = - n" by (rule floor_unique)
    with True show ?thesis by (simp add: int_decimal_def)
  next
    case False
    have "0 \<le> rat_of_int n"
    proof (cases "x = 0")
      case True
      with le show ?thesis by simp
    next
      case False
      with \<open>\<not> x < 0\<close> have "0 < x" by simp
      with sg show ?thesis by (simp add: zero_le_mult_iff)
    qed
    with le lt False have "rat_of_int n \<le> x" and "x < rat_of_int n + 1"
      by simp_all
    then have "\<lfloor>x\<rfloor> = n" by (rule floor_unique)
    with False show ?thesis by (simp add: int_decimal_def)
  qed
qed

lemma PatientDischargeDetails_save_charges:
  "roomCharge (PatientDischargeDetails_save r) = Some (int_decimal (room_charge r))"
  "medicineCost (PatientDischargeDetails_save r) = Some (int_decimal (medicine_cost r))"
  "doctorFee (PatientDischargeDetails_save r) = Some (int_decimal (doctor_fee r))"
  "OtherCharge (PatientDischargeDetails_save r) = Some (int_decimal (other_charge r))"
  by (simp_all add: PatientDischargeDetails_save_def PatientDischargeDetails_sync_patient_def
      PatientDischargeDetails_sync_doctor_def PatientDischargeDetails_sync_fields_def
      split: option.split)

text \<open>
  C4. For every PatientDischargeDetails record, after save each of the four integer legacy
  charge fields holds the corresponding canonical decimal charge truncated toward zero.
\<close>

theorem discharge_charges_truncated:
  "(\<exists>n. roomCharge (PatientDischargeDetails_save r) = Some n \<and>
        truncates_toward_zero (room_charge r) n) \<and>
   (\<exists>n. medicineCost (PatientDischargeDetails_save r) = Some n \<and>
        truncates_toward_zero (medicine_cost r) n) \<and>
   (\<exists>n. doctorFee (PatientDischargeDetails_save r) = Some n \<and>
        truncates_toward_zero (doctor_fee r) n) \<and>
   (\<exists>n. OtherCharge (PatientDischargeDetails_save r) = Some n \<and>
        truncates_toward_zero (other_charge r) n)"
  by (simp add: PatientDischargeDetails_save_charges int_decimal_truncates)

text \<open>
  The example of the claim: 100.75 yields 100, where rounding would yield 101; 19.99
  yields 19, 200.50 yields 200 and 0.50 yields 0.
\<close>

theorem discharge_charges_truncated_witness:
  "room_charge fractional_discharge = 403 / 4 \<and>
   roomCharge (PatientDischargeDetails_save fractional_discharge) = Some 100 \<and>
   truncates_toward_zero (403 / 4) 100 \<and>
   medicine_cost fractional_discharge = 1999 / 100 \<and>
   medicineCost (PatientDischargeDetails_save fractional_discharge) = Some 19 \<and>
   truncates_toward_zero (1999 / 100) 19 \<and>
   doctor_fee fractional_discharge = 401 / 2 \<and>
   doctorFee (PatientDischargeDetails_save fractional_discharge) = Some 200 \<and>
   truncates_toward_zero (401 / 2) 200 \<and>
   other_charge fractional_discharge = 1 / 2 \<and>
   OtherCharge (PatientDischargeDetails_save fractional_discharge) = Some 0 \<and>
   truncates_toward_zero (1 / 2) 0"
proof -
  have rc: "room_charge fractional_discharge = 403 / 4"
    and mc: "medicine_cost fractional_discharge = 1999 / 100"
    and df: "doctor_fee fractional_discharge = 401 / 2"
    and oc: "other_charge fractional_discharge = 1 / 2"
    by (simp_all add: fractional_discharge_def)
  have room: "roomCharge (PatientDischargeDetails_save fractional_discharge) = Some 100"
    by code_simp
  have med: "medicineCost (PatientDischargeDetails_save fractional_discharge) = Some 19"
    by code_simp
  have fee: "doctorFee (PatientDischargeDetails_save fractional_discharge) = Some 200"
    by code_simp
  have other: "OtherCharge (PatientDischargeDetails_save fractional_discharge) = Some 0"
    by code_simp
  from discharge_charges_truncated [of fractional_discharge] rc mc df oc room med fee other
  show ?thesis by simp
qed

text \<open>
  Toward zero, not downward: \<open>int\<close> of \<open>-100.75\<close> is \<open>-100\<close>, where the floor is \<open>-101\<close>.
\<close>

lemma int_decimal_negative:
  "int_decimal (- (403 / 4)) = - 100" "\<lfloor>- (403 / 4) :: rat\<rfloor> = - 101"
  by code_simp+

section \<open>Properties of the rounding\<close>

text \<open>
  \<open>round_binary64\<close> returns a value with a significand of at most 53 bits at the exponent of
  its argument, at most half a unit in the last place away from the argument, with ties
  resolved to the even significand by \<open>pick_half_even\<close>. These are facts about the function
  \<open>round_binary64\<close>; it is \<open>float\<close>'s rounding inside the normal range of binary64, where
  the values of the currency columns lie.
\<close>

declare bit_length.simps [simp del]

lemma bit_length_pos: "0 < n \<Longrightarrow> 0 < bit_length n"
proof (induction n rule: bit_length.induct)
  case (1 n)
  show ?case
  proof (cases "n div 2 \<le> 0")
    case True
    then have "bit_length (n div 2) = 0" by (simp add: bit_length.simps)
    with 1 show ?thesis by (simp add: bit_length.simps [of n])
  next
    case False
    with 1 have "0 < bit_length (n div 2)" by simp
    with 1 show ?thesis by (simp add: bit_length.simps [of n])
  qed
qed

lemma bit_length_bounds:
  "0 < n \<Longrightarrow> 2 ^ nat (bit_length n - 1) \<le> n \<and> n < 2 ^ nat (bit_length n)"
proof (induction n rule: bit_length.induct)
  case (1 n)
  let ?m = "n div 2"
  have step: "bit_length n = 1 + bit_length ?m"
    using 1 by (simp add: bit_length.simps [of n])
  show ?case
  proof (cases "?m \<le> 0")
    case True
    with 1 have "n = 1" by simp
    moreover have "bit_length ?m = 0" using True by (simp add: bit_length.simps)
    ultimately show ?thesis using step by simp
  next
    case False
    then have mpos: "0 < ?m" by simp
    with 1 have ih: "2 ^ nat (bit_length ?m - 1) \<le> ?m" "?m < 2 ^ nat (bit_length ?m)"
      by simp_all
    from bit_length_pos [OF mpos] have "nat (bit_length ?m) = Suc (nat (bit_length ?m - 1))"
      by simp
    then have dbl: "(2::int) ^ nat (bit_length ?m) = 2 * 2 ^ nat (bit_length ?m - 1)"
      by simp
    have "2 * ?m \<le> n" by simp
    with ih(1) dbl have lo: "2 ^ nat (bit_length ?m) \<le> n" by linarith
    have "n < 2 * ?m + 2" by simp
    with ih(2) have hi: "n < 2 * 2 ^ nat (bit_length ?m)" by linarith
    have "nat (bit_length n) = Suc (nat (bit_length ?m))"
      using step bit_length_pos [OF mpos] by simp
    with lo hi step show ?thesis by simp
  qed
qed

lemma pow2_powi: "pow2 k = 2 powi k"
  by (simp add: pow2_def power_int_def inverse_eq_divide power_one_over)

lemma pow2_pos: "0 < pow2 k"
  by (simp add: pow2_powi)

lemma pow2_add: "pow2 (i + j) = pow2 i * pow2 j"
  by (simp add: pow2_powi power_int_add)

lemma pow2_Suc: "pow2 (k + 1) = 2 * pow2 k"
proof -
  have "pow2 1 = 2" by (simp add: pow2_def)
  then show ?thesis using pow2_add [of k 1] by simp
qed

lemma pow2_nat: "0 \<le> k \<Longrightarrow> pow2 k = of_int (2 ^ nat k)"
  by (simp add: pow2_def)


lemma pow2_bit_length:
  assumes "0 < n"
  shows "pow2 (bit_length n - 1) \<le> of_int n" and "of_int n < pow2 (bit_length n)"
proof -
  from bit_length_pos [OF assms] have nn: "0 \<le> bit_length n - 1" "0 \<le> bit_length n"
    by simp_all
  from bit_length_bounds [OF assms]
  have "rat_of_int (2 ^ nat (bit_length n - 1)) \<le> of_int n"
    and "rat_of_int n < of_int (2 ^ nat (bit_length n))"
    by (simp_all only: of_int_le_iff of_int_less_iff)
  then show "pow2 (bit_length n - 1) \<le> of_int n" and "of_int n < pow2 (bit_length n)"
    by (simp_all only: pow2_nat [OF nn(1)] pow2_nat [OF nn(2)])
qed

lemma floor_log2_bounds:
  assumes "x \<noteq> 0"
  shows "pow2 (floor_log2 x) \<le> \<bar>x\<bar> \<and> \<bar>x\<bar> < pow2 (floor_log2 x + 1)"
proof -
  obtain p q where pq: "quotient_of \<bar>x\<bar> = (p, q)" by force
  have qpos: "0 < q" using quotient_of_denom_pos [OF pq] .
  have a_eq: "\<bar>x\<bar> = of_int p / of_int q" using quotient_of_div [OF pq] .
  have apos: "0 < \<bar>x\<bar>" using assms by simp
  have ppos: "0 < p"
    using apos qpos unfolding a_eq by (simp add: zero_less_divide_iff)
  have prod: "\<bar>x\<bar> * of_int q = of_int p"
    using qpos unfolding a_eq by simp
  let ?bp = "bit_length p" and ?bq = "bit_length q"
  let ?k = "?bp - ?bq"
  note P = pow2_bit_length [OF ppos] and Q = pow2_bit_length [OF qpos]
  have qr: "0 < rat_of_int q" using qpos by simp
  have "pow2 (?k + 1) * pow2 (?bq - 1) = pow2 ?bp"
    by (simp add: pow2_add [symmetric])
  moreover have "pow2 (?k + 1) * pow2 (?bq - 1) \<le> pow2 (?k + 1) * of_int q"
    using Q(1) pow2_pos [of "?k + 1"] by simp
  ultimately have "\<bar>x\<bar> * of_int q < pow2 (?k + 1) * of_int q"
    using P(2) prod by linarith
  then have up: "\<bar>x\<bar> < pow2 (?k + 1)"
    using qr by (simp only: mult_less_cancel_right_pos)
  have "pow2 (?k - 1) * pow2 ?bq = pow2 (?bp - 1)"
    by (simp add: pow2_add [symmetric])
  moreover have "pow2 (?k - 1) * of_int q < pow2 (?k - 1) * pow2 ?bq"
    using Q(2) pow2_pos [of "?k - 1"] by simp
  ultimately have "pow2 (?k - 1) * of_int q < \<bar>x\<bar> * of_int q"
    using P(1) prod by linarith
  then have lo: "pow2 (?k - 1) < \<bar>x\<bar>"
    using qr by (simp only: mult_less_cancel_right_pos)
  have fl: "floor_log2 x = log2_adjust \<bar>x\<bar> ?k"
    by (simp add: floor_log2_def pq)
  show ?thesis
  proof (cases "pow2 ?k \<le> \<bar>x\<bar>")
    case True
    then show ?thesis using up by (simp add: fl log2_adjust_def)
  next
    case False
    then show ?thesis using lo by (simp add: fl log2_adjust_def)
  qed
qed

lemma round_half_even_nearest: "\<bar>of_int (round_half_even r) - r\<bar> \<le> 1 / 2"
proof -
  have "of_int \<lfloor>r\<rfloor> \<le> r" and "r < of_int \<lfloor>r\<rfloor> + 1" by linarith+
  then show ?thesis
    by (auto simp add: round_half_even_def pick_half_even_def)
qed

lemma round_binary64_nearest:
  assumes "x \<noteq> 0"
  shows "\<exists>m. round_binary64 x = sgn x * of_int m * pow2 (floor_log2 x - 52) \<and>
             2 ^ 52 \<le> m \<and> m \<le> 2 ^ 53 \<and>
             \<bar>round_binary64 x - x\<bar> \<le> pow2 (floor_log2 x - 52) / 2"
proof -
  let ?q = "floor_log2 x - 52"
  let ?s = "\<bar>x\<bar> / pow2 ?q"
  let ?m = "round_half_even ?s"
  have qpos: "0 < pow2 ?q" by (rule pow2_pos)
  have p52: "pow2 52 = 2 ^ 52" by (simp add: pow2_def)
  have e: "pow2 (floor_log2 x) = 2 ^ 52 * pow2 ?q"
    using pow2_add [of 52 ?q] p52 by simp
  have e1: "pow2 (floor_log2 x + 1) = 2 ^ 53 * pow2 ?q"
    using e by (simp add: pow2_Suc)
  from floor_log2_bounds [OF assms]
  have "2 ^ 52 * pow2 ?q \<le> \<bar>x\<bar>" and "\<bar>x\<bar> < 2 ^ 53 * pow2 ?q"
    by (simp_all add: e e1)
  then have s_lo: "2 ^ 52 \<le> ?s" and s_hi: "?s < 2 ^ 53"
    using qpos by (simp_all add: pos_le_divide_eq pos_divide_less_eq)
  have near: "\<bar>of_int ?m - ?s\<bar> \<le> 1 / 2" by (rule round_half_even_nearest)
  from near have m_ge: "?s - 1 / 2 \<le> of_int ?m" and m_le: "of_int ?m \<le> ?s + 1 / 2"
    by linarith+
  have c52: "rat_of_int (2 ^ 52 - 1) = 2 ^ 52 - 1" and c53: "rat_of_int (2 ^ 53 + 1) = 2 ^ 53 + 1"
    by simp_all
  have "rat_of_int (2 ^ 52 - 1) < of_int ?m"
    unfolding c52 using m_ge s_lo by linarith
  then have "2 ^ 52 - 1 < ?m" by (simp only: of_int_less_iff)
  then have m_lo: "2 ^ 52 \<le> ?m" by linarith
  have "rat_of_int ?m < of_int (2 ^ 53 + 1)"
    unfolding c53 using m_le s_hi by linarith
  then have "?m < 2 ^ 53 + 1" by (simp only: of_int_less_iff)
  then have m_hi: "?m \<le> 2 ^ 53" by linarith
  have val: "round_binary64 x = sgn x * of_int ?m * pow2 ?q"
    using assms by (simp add: round_binary64_def scale_round_def)
  have x_eq: "x = sgn x * ?s * pow2 ?q"
    using qpos by (simp add: sgn_mult_abs)
  have "round_binary64 x - x = sgn x * (of_int ?m - ?s) * pow2 ?q"
    by (subst val, subst (2) x_eq) (simp add: algebra_simps)
  then have "\<bar>round_binary64 x - x\<bar> = \<bar>of_int ?m - ?s\<bar> * pow2 ?q"
    using assms qpos by (simp add: abs_mult abs_sgn_eq)
  also have "\<dots> \<le> 1 / 2 * pow2 ?q"
    using near qpos by (simp only: mult_le_cancel_right_pos)
  finally have err: "\<bar>round_binary64 x - x\<bar> \<le> pow2 ?q / 2" by simp
  from val m_lo m_hi err show ?thesis by blast
qed

text \<open>
  The non-zero values of a \<open>DecimalField(max_digits=10, decimal_places=2)\<close> column have
  binary exponents between \<open>-7\<close> and \<open>26\<close>, well inside the normal range of binary64.
\<close>

lemma pow2_mono: "i \<le> j \<Longrightarrow> pow2 i \<le> pow2 j"
  by (simp add: pow2_powi power_int_increasing)

lemma money_normal_range:
  assumes "money x" and "x \<noteq> 0"
  shows "- 7 \<le> floor_log2 x \<and> floor_log2 x \<le> 26"
proof -
  from assms(1) have hi: "\<bar>x\<bar> < 10 ^ 8" and cents: "rat_of_int \<lfloor>100 * x\<rfloor> = 100 * x"
    by (simp_all add: money_def)
  from cents assms(2) have "\<lfloor>100 * x\<rfloor> \<noteq> 0" by auto
  then have "1 \<le> \<bar>\<lfloor>100 * x\<rfloor>\<bar>" by simp
  then have "1 \<le> \<bar>rat_of_int \<lfloor>100 * x\<rfloor>\<bar>"
    by (simp only: of_int_abs [symmetric] of_int_1_le_iff)
  moreover have "\<bar>rat_of_int \<lfloor>100 * x\<rfloor>\<bar> = 100 * \<bar>x\<bar>"
    by (simp only: cents abs_mult abs_numeral)
  ultimately have lo: "1 / 100 \<le> \<bar>x\<bar>" by linarith
  from floor_log2_bounds [OF assms(2)]
  have b1: "pow2 (floor_log2 x) \<le> \<bar>x\<bar>" and b2: "\<bar>x\<bar> < pow2 (floor_log2 x + 1)"
    by simp_all
  have p27: "pow2 27 = 134217728" and pm7: "pow2 (- 7) = 1 / 128"
    by (simp_all add: pow2_def)
  have "floor_log2 x \<le> 26"
  proof (rule ccontr)
    assume "\<not> floor_log2 x \<le> 26"
    then have "pow2 27 \<le> pow2 (floor_log2 x)" by (intro pow2_mono) simp
    with b1 hi p27 show False by simp
  qed
  moreover have "- 7 \<le> floor_log2 x"
  proof (rule ccontr)
    assume "\<not> - 7 \<le> floor_log2 x"
    then have "pow2 (floor_log2 x + 1) \<le> pow2 (- 7)" by (intro pow2_mono) simp
    with b2 lo pm7 show False by simp
  qed
  ultimately show ?thesis by simp
qed

lemma money_examples:
  "money (1 / 10)" "money (33 / 10)" "money (9999999999 / 100)" "\<not> money (1 / 3)"
  "\<not> money (10 ^ 8)"
  by code_simp+

section \<open>The billing total checker\<close>

text \<open>Known binary64 values, as a check of \<open>round_binary64\<close>.\<close>

lemma float_decimal_known_values:
  "float_decimal (1 / 10) = 3602879701896397 / 2 ^ 55"
  "float_decimal (2 / 10) = 3602879701896397 / 2 ^ 54"
  "float_decimal (3 / 10) = 5404319552844595 / 2 ^ 54"
  "float_decimal (1 / 100) = 5764607523034235 / 2 ^ 59"
  "float_decimal (9999999999 / 100) = 6710886399328911 / 2 ^ 26"
  "float_decimal (403 / 4) = 403 / 4"
  "float_decimal (- (403 / 4)) = - (403 / 4)"
  "float_decimal 360 = 360"
  "float_decimal 0 = 0"
  by code_simp+

text \<open>The two scenarios of the specification, and a record not yet inserted.\<close>

lemma calculate_total_scenarios:
  "calculate_total example_discharge = Correct 360"
  "calculate_total short_discharge = Mismatch 350 360"
  "calculate_total unsaved_discharge = NotEvaluable"
  by code_simp+

text \<open>
  C7. The claim: the output of the checker is one of three mutually exclusive cases, not
  yet evaluable when the record has no persisted identity, match when the expected sum
  equals the stated total, and mismatch otherwise, carrying the stated total and the
  expected sum. The code does not do that: its sum is taken in binary floating point.
  For the persisted record with charges 1.10, 2.20, 0.00 and 0.00 and stated total 3.30,
  whose expected sum equals the stated total, the checker reports a mismatch, not a match,
  and the value it carries beside the stated total, 3.3000000000000003, is not the
  expected sum.
\<close>

theorem calculate_total_mismatch_on_exact_total:
  "pk cents_discharge = Some 1 \<and>
   expected_sum cents_discharge = 33 / 10 \<and>
   total_bill cents_discharge = 33 / 10 \<and>
   calculate_total cents_discharge = Mismatch (33 / 10) (7430939385161319 / 2 ^ 51) \<and>
   calculate_total cents_discharge \<noteq> Correct (expected_sum cents_discharge) \<and>
   (7430939385161319 / 2 ^ 51 :: rat) \<noteq> expected_sum cents_discharge"
proof -
  have pk: "pk cents_discharge = Some 1"
    and sum: "expected_sum cents_discharge = 33 / 10"
    and total: "total_bill cents_discharge = 33 / 10"
    by (simp_all add: cents_discharge_def example_discharge_def expected_sum_def)
  have out: "calculate_total cents_discharge = Mismatch (33 / 10) (7430939385161319 / 2 ^ 51)"
    by code_simp
  have drift: "(7430939385161319 / 2 ^ 51 :: rat) \<noteq> 33 / 10"
    by simp
  from pk sum total out drift show ?thesis
    by simp
qed

text \<open>
  C1. The claim: the checker computes the expected sum in fixed-point decimal arithmetic,
  so whenever the four components sum to the stated total exactly, it reports a match.
  The code does not: it converts every operand to binary floating point. For the
  persisted record with charges 0.10, 0.20, 0.00 and 0.00 and stated total 0.30, which
  sum exactly, it computes 0.30000000000000004 and reports a mismatch.
\<close>

theorem calculate_total_float_drift:
  "pk dime_discharge = Some 1 \<and>
   room_charge dime_discharge + medicine_cost dime_discharge + doctor_fee dime_discharge +
     other_charge dime_discharge = total_bill dime_discharge \<and>
   calculate_total dime_discharge = Mismatch (3 / 10) (5404319552844596 / 2 ^ 54)"
proof -
  have "calculate_total dime_discharge = Mismatch (3 / 10) (5404319552844596 / 2 ^ 54)"
    by code_simp
  then show ?thesis
    by (simp add: dime_discharge_def example_discharge_def)
qed

end
